theory Spec2Isabelle
  imports Complex_Main
begin

section \<open>JavaScript values\<close>

text \<open>
  The data-access module of the conversation application (TypeScript over the Prisma
  client) is embedded as pure functions that take the database state and return the new
  state together with the response envelope. Every \<^verbatim>\<open>try { ... } catch\<close> of the source
  is a case distinction on a sum type whose left summand is the thrown error.
\<close>

datatype json =
    JNull
  | JBool bool
  | JNum real
  | JStr string
  | JArr "json list"
  | JObj "(string \<times> json) list"

text \<open>The test \<^verbatim>\<open>v ? a : b\<close> on a JSON value.\<close>

fun truthy :: "json \<Rightarrow> bool" where
  "truthy JNull = False"
| "truthy (JBool b) = b"
| "truthy (JNum r) = (r \<noteq> 0)"
| "truthy (JStr s) = (s \<noteq> [])"
| "truthy (JArr xs) = True"
| "truthy (JObj kvs) = True"

datatype js_error = SyntaxError | TypeError | RecordNotFound

text \<open>
  A stored text is only ever tested for truthiness and handed to \<^verbatim>\<open>JSON.parse\<close>, so it
  is represented by what those two do with it: the empty string (falsy, rejected by the
  parser), a non-empty string that \<^verbatim>\<open>JSON.parse\<close> rejects, or a string that
  \<^verbatim>\<open>JSON.parse\<close> maps to the value \<open>v\<close>. \<^verbatim>\<open>JSON.stringify v\<close> of a JSON value is a
  string that parses back to \<open>v\<close>.
\<close>

datatype json_text = EmptyText | Malformed | Encodes json

fun JSON_parse :: "json_text \<Rightarrow> js_error + json" where
  "JSON_parse EmptyText = Inl SyntaxError"
| "JSON_parse Malformed = Inl SyntaxError"
| "JSON_parse (Encodes v) = Inr v"

definition JSON_stringify :: "json \<Rightarrow> json_text" where
  "JSON_stringify v = Encodes v"

text \<open>
  The property access \<^verbatim>\<open>o[k]\<close>: \<open>None\<close> is \<^verbatim>\<open>undefined\<close>, reading a property of
  \<^verbatim>\<open>null\<close> throws. Only the own properties of an object are looked up; \<open>k\<close> is a model
  name, never the name of a built-in property.
\<close>

fun get_property :: "json \<Rightarrow> string \<Rightarrow> js_error + json option" where
  "get_property JNull k = Inl TypeError"
| "get_property (JObj kvs) k = Inr (map_of kvs k)"
| "get_property v k = Inr None"

text \<open>
  \<^verbatim>\<open>String.prototype.trim\<close> on strings of 8-bit code units: tab, line feed, vertical
  tab, form feed, carriage return, space and no-break space are stripped at both ends.
\<close>

definition js_whitespace :: "char \<Rightarrow> bool" where
  "js_whitespace c \<longleftrightarrow>
     c \<in> {CHR 0x09, CHR 0x0A, CHR 0x0B, CHR 0x0C, CHR 0x0D, CHR 0x20, CHR 0xA0}"

definition trim :: "string \<Rightarrow> string" where
  "trim s = rev (dropWhile js_whitespace (rev (dropWhile js_whitespace s)))"

section \<open>Rows, database state and response envelope\<close>

text \<open>The generation parameters edited by the modal (interface \<^verbatim>\<open>Parameters\<close>).\<close>

record Parameters =
  userContext :: string
  responseContext :: string
  temperature :: real

text \<open>
  Modelled from the spec: the type \<^verbatim>\<open>ModelParameters\<close> of
  \<^verbatim>\<open>@/types/model-parameters-types\<close> is not among the sources; the spec describes the
  per-conversation generation parameters as userContext, responseContext and temperature.
\<close>

type_synonym ModelParameters = Parameters

record ConversationDataInput =
  idUser :: int
  idModel :: int
  title :: string
  tags :: "int list option"
  parameters :: json
  active :: bool
  useGlobalParameters :: bool

record Tag =
  Tag_id :: int
  Tag_name :: string

record UpdatedInfo =
  tags :: "Tag list option"
  title :: "string option"

record User =
  User_id :: int
  globalParameters :: "json_text option"

record Provider =
  Provider_id :: int
  image :: string

record Model =
  Model_id :: int
  name :: string
  idProvider :: int

record Message =
  Message_id :: int
  idConversation :: int
  role :: string
  content :: string

text \<open>
  The \<^verbatim>\<open>parameters\<close> column holds either the text written by \<^verbatim>\<open>createConversation\<close>
  (\<^verbatim>\<open>JSON.stringify(...)\<close>) or the object written by \<^verbatim>\<open>updateConversationParameters\<close>.
\<close>

datatype parameters_column = TextValue json_text | ObjectValue ModelParameters

text \<open>
  A conversation row. The many-to-many relation to tags is kept with the row as the set of
  the ids of the connected tags. \<^verbatim>\<open>createConversation\<close> spreads its whole input into the
  created row, so the row has a column for every input field.
\<close>

record Conversation =
  id_c :: int
  idUser :: int
  idModel :: int
  title :: string
  tags :: "int set"
  parameters :: parameters_column
  active :: bool
  useGlobalParameters :: bool

record db =
  users :: "User list"
  providers :: "Provider list"
  models :: "Model list"
  conversations :: "Conversation list"
  messages :: "Message list"
  conversation_seq :: int

datatype msg = Text string | ErrorMessage js_error

record 'a PrismaResponse =
  status :: nat
  data :: "'a option"
  message :: "msg option"

text \<open>The envelope \<^verbatim>\<open>{ status, message }\<close>.\<close>

definition reply :: "nat \<Rightarrow> string \<Rightarrow> 'a PrismaResponse" where
  "reply s m = \<lparr>status = s, data = None, message = Some (Text m)\<rparr>"

definition success :: "nat \<Rightarrow> 'a \<Rightarrow> 'a PrismaResponse" where
  "success s d = \<lparr>status = s, data = Some d, message = None\<rparr>"

text \<open>The \<^verbatim>\<open>catch\<close> branch: status 500 with the message of the caught error.\<close>

definition thrown :: "js_error \<Rightarrow> 'a PrismaResponse" where
  "thrown e = \<lparr>status = 500, data = None, message = Some (ErrorMessage e)\<rparr>"

text \<open>A conversation as returned with \<^verbatim>\<open>include\<close>: \<open>None\<close> is a relation left out.\<close>

record ConversationResult =
  row :: Conversation
  user :: "User option"
  model :: "Model option"
  messages_of :: "Message list option"

text \<open>An element of the list view: the row, the model's name and the provider's image.\<close>

record ConversationListItem =
  item :: Conversation
  model_name :: "string option"
  provider_image :: "string option"

section \<open>The Prisma client\<close>

text \<open>
  The operations of the client as its API documents them: \<^verbatim>\<open>findUnique\<close> resolves to
  the row or to \<^verbatim>\<open>null\<close>; \<^verbatim>\<open>update\<close> and \<^verbatim>\<open>delete\<close> resolve to the affected row
  and reject with a record-not-found error when no row has the given id (their result
  type has no \<^verbatim>\<open>null\<close>, as the unchecked use in \<^verbatim>\<open>updateConversationParameters\<close> relies
  on); \<^verbatim>\<open>updateMany\<close> and \<^verbatim>\<open>deleteMany\<close> resolve to the number of matching rows.
\<close>

definition user_findUnique :: "db \<Rightarrow> int \<Rightarrow> User option" where
  "user_findUnique d i = find (\<lambda>u. User_id u = i) (users d)"

definition model_findUnique :: "db \<Rightarrow> int \<Rightarrow> Model option" where
  "model_findUnique d i = find (\<lambda>m. Model_id m = i) (models d)"

definition provider_findUnique :: "db \<Rightarrow> int \<Rightarrow> Provider option" where
  "provider_findUnique d i = find (\<lambda>p. Provider_id p = i) (providers d)"

definition conversation_findUnique :: "db \<Rightarrow> int \<Rightarrow> Conversation option" where
  "conversation_findUnique d i = find (\<lambda>c. id_c c = i) (conversations d)"

definition conversation_findMany :: "db \<Rightarrow> (Conversation \<Rightarrow> bool) \<Rightarrow> Conversation list" where
  "conversation_findMany d P = filter P (conversations d)"

definition message_findMany :: "db \<Rightarrow> int \<Rightarrow> Message list" where
  "message_findMany d i = filter (\<lambda>m. idConversation m = i) (messages d)"

text \<open>\<^verbatim>\<open>create\<close>: the database issues the next id of the sequence.\<close>

definition conversation_create :: "db \<Rightarrow> (int \<Rightarrow> Conversation) \<Rightarrow> db \<times> Conversation" where
  "conversation_create d mk =
     (let n = conversation_seq d + 1; c = mk n
      in (d\<lparr>conversations := conversations d @ [c], conversation_seq := n\<rparr>, c))"

definition conversation_update ::
  "db \<Rightarrow> int \<Rightarrow> (Conversation \<Rightarrow> Conversation) \<Rightarrow> js_error + db \<times> Conversation option" where
  "conversation_update d i f =
     (case conversation_findUnique d i of
        None \<Rightarrow> Inl RecordNotFound
      | Some c \<Rightarrow>
          Inr (d\<lparr>conversations := map (\<lambda>x. if id_c x = i then f x else x) (conversations d)\<rparr>,
               Some (f c)))"

definition conversation_updateMany ::
  "db \<Rightarrow> (Conversation \<Rightarrow> bool) \<Rightarrow> (Conversation \<Rightarrow> Conversation) \<Rightarrow> db \<times> nat" where
  "conversation_updateMany d P f =
     (d\<lparr>conversations := map (\<lambda>x. if P x then f x else x) (conversations d)\<rparr>,
      length (filter P (conversations d)))"

definition conversation_delete :: "db \<Rightarrow> int \<Rightarrow> js_error + db \<times> Conversation option" where
  "conversation_delete d i =
     (case conversation_findUnique d i of
        None \<Rightarrow> Inl RecordNotFound
      | Some c \<Rightarrow>
          Inr (d\<lparr>conversations := filter (\<lambda>x. id_c x \<noteq> i) (conversations d)\<rparr>, Some c))"

definition message_deleteMany :: "db \<Rightarrow> int \<Rightarrow> db \<times> nat" where
  "message_deleteMany d i =
     (d\<lparr>messages := filter (\<lambda>m. idConversation m \<noteq> i) (messages d)\<rparr>,
      length (filter (\<lambda>m. idConversation m = i) (messages d)))"

text \<open>The two \<^verbatim>\<open>include\<close> shapes of the module.\<close>

definition include_all :: "db \<Rightarrow> Conversation \<Rightarrow> ConversationResult" where
  "include_all d c =
     \<lparr>row = c, user = user_findUnique d (idUser c), model = model_findUnique d (idModel c),
      messages_of = Some (message_findMany d (id_c c))\<rparr>"

definition include_tags :: "Conversation \<Rightarrow> ConversationResult" where
  "include_tags c = \<lparr>row = c, user = None, model = None, messages_of = None\<rparr>"

definition list_item :: "db \<Rightarrow> Conversation \<Rightarrow> ConversationListItem" where
  "list_item d c =
     (let m = model_findUnique d (idModel c)
      in \<lparr>item = c, model_name = map_option name m,
          provider_image =
            (case m of None \<Rightarrow> None
             | Some m' \<Rightarrow> map_option image (provider_findUnique d (idProvider m')))\<rparr>)"

section \<open>The conversation data-access module\<close>

definition getAllConversationsByUserId ::
  "db \<Rightarrow> int \<Rightarrow> ConversationListItem list PrismaResponse" where
  "getAllConversationsByUserId d idUser' =
     (if idUser' = 0 \<or> idUser' < 0 then reply 400 ''Invalid user ID''
      else case user_findUnique d idUser' of
        None \<Rightarrow> reply 404 ''User not found''
      | Some userExists \<Rightarrow>
          (let conversations' =
                 map (list_item d) (conversation_findMany d (\<lambda>c. idUser c = idUser' \<and> active c))
           in if length conversations' = 0
              then reply 404 ''No conversations found for this user''
              else success 200 conversations'))"

definition getConversationById :: "db \<Rightarrow> int \<Rightarrow> ConversationResult PrismaResponse" where
  "getConversationById d i =
     (if i = 0 \<or> i \<le> 0 then reply 400 ''Invalid conversation ID''
      else case conversation_findUnique d i of
        None \<Rightarrow> reply 404 ''Conversation not found''
      | Some conversation \<Rightarrow> success 200 (include_all d conversation))"

text \<open>
  \<^verbatim>\<open>user.globalParameters ? JSON.parse(String(user.globalParameters)) : {}\<close>: a
  \<^verbatim>\<open>null\<close> column and the empty string are falsy.
\<close>

definition userGlobalParameters :: "User \<Rightarrow> js_error + json" where
  "userGlobalParameters u =
     (case globalParameters u of
        None \<Rightarrow> Inr (JObj [])
      | Some EmptyText \<Rightarrow> Inr (JObj [])
      | Some t \<Rightarrow> JSON_parse t)"

text \<open>
  \<^verbatim>\<open>parameters ? JSON.stringify(parameters) : JSON.stringify({})\<close>, where \<open>None\<close> is
  \<^verbatim>\<open>undefined\<close>.
\<close>

definition stored_parameters :: "json option \<Rightarrow> json_text" where
  "stored_parameters p =
     (case p of
        None \<Rightarrow> JSON_stringify (JObj [])
      | Some v \<Rightarrow> if truthy v then JSON_stringify v else JSON_stringify (JObj []))"

definition createConversation ::
  "db \<Rightarrow> ConversationDataInput option \<Rightarrow> db \<times> ConversationResult PrismaResponse" where
  "createConversation d input =
     (case input of
        None \<Rightarrow> (d, reply 400 ''Invalid input for creating conversation'')
      | Some inp \<Rightarrow>
          if ConversationDataInput.idUser inp = 0 \<or> ConversationDataInput.idModel inp = 0
             \<or> ConversationDataInput.title inp = []
          then (d, reply 400 ''Invalid input for creating conversation'')
          else case user_findUnique d (ConversationDataInput.idUser inp) of
            None \<Rightarrow> (d, reply 404 ''User not found'')
          | Some user' \<Rightarrow>
              (case model_findUnique d (ConversationDataInput.idModel inp) of
                 None \<Rightarrow> (d, reply 404 ''Model not found'')
               | Some model' \<Rightarrow>
                   (case userGlobalParameters user' of
                      Inl e \<Rightarrow> (d, thrown e)
                    | Inr globals \<Rightarrow>
                        (case get_property globals (name model') of
                           Inl e \<Rightarrow> (d, thrown e)
                         | Inr modelParameters \<Rightarrow>
                             (let parameters' =
                                    (if ConversationDataInput.useGlobalParameters inp
                                     then modelParameters else None);
                                  (d', newConversation) = conversation_create d (\<lambda>n.
                                    \<lparr>id_c = n,
                                     idUser = ConversationDataInput.idUser inp,
                                     idModel = ConversationDataInput.idModel inp,
                                     title = ConversationDataInput.title inp,
                                     tags = (case ConversationDataInput.tags inp of
                                               None \<Rightarrow> {} | Some ts \<Rightarrow> set ts),
                                     parameters = TextValue (stored_parameters parameters'),
                                     active = True,
                                     useGlobalParameters =
                                       ConversationDataInput.useGlobalParameters inp\<rparr>)
                              in (d', success 201 (include_all d' newConversation)))))))"

definition updateConversationById ::
  "db \<Rightarrow> int \<Rightarrow> UpdatedInfo \<Rightarrow> bool \<Rightarrow> db \<times> ConversationResult PrismaResponse" where
  "updateConversationById d i updatedInfo includeRelatedEntities =
     (if i = 0 \<or> i \<le> 0 then (d, reply 400 ''Invalid conversation ID'')
      else if (case UpdatedInfo.title updatedInfo of
                 None \<Rightarrow> False | Some t \<Rightarrow> t \<noteq> [] \<and> trim t = [])
      then (d, reply 400 ''Title cannot be empty'')
      else case conversation_update d i (\<lambda>c.
                  c\<lparr>tags := (case UpdatedInfo.tags updatedInfo of
                               None \<Rightarrow> tags c | Some ts \<Rightarrow> Tag_id ` set ts),
                    title := (case UpdatedInfo.title updatedInfo of
                                None \<Rightarrow> title c | Some t \<Rightarrow> if t \<noteq> [] then t else title c)\<rparr>) of
        Inl e \<Rightarrow> (d, thrown e)
      | Inr (d', None) \<Rightarrow> (d', reply 404 ''Conversation not found'')
      | Inr (d', Some conversation) \<Rightarrow>
          (d', success 200 (if includeRelatedEntities then include_all d' conversation
                            else include_tags conversation)))"

text \<open>
  \<^verbatim>\<open>areValidModelParameters\<close> is imported from a module that is not among the sources;
  it is the first argument.
\<close>

definition updateConversationParameters ::
  "(ModelParameters \<Rightarrow> bool) \<Rightarrow> db \<Rightarrow> int \<Rightarrow> ModelParameters \<Rightarrow> db \<times> Conversation PrismaResponse" where
  "updateConversationParameters areValidModelParameters d i parameters' =
     (if \<not> areValidModelParameters parameters' then (d, reply 400 ''Invalid model parameters'')
      else case conversation_update d i (\<lambda>c. c\<lparr>parameters := ObjectValue parameters'\<rparr>) of
        Inl e \<Rightarrow> (d, thrown e)
      | Inr (d', conversation) \<Rightarrow> (d', \<lparr>status = 200, data = conversation, message = None\<rparr>))"

definition deactivateConversationById :: "db \<Rightarrow> int \<Rightarrow> db \<times> unit PrismaResponse" where
  "deactivateConversationById d i =
     (if i = 0 \<or> i \<le> 0 then (d, reply 400 ''Invalid conversation ID'')
      else case conversation_update d i (\<lambda>c. c\<lparr>active := False\<rparr>) of
        Inl e \<Rightarrow> (d, thrown e)
      | Inr (d', None) \<Rightarrow> (d', reply 404 ''Conversation not found'')
      | Inr (d', Some conversation) \<Rightarrow> (d', reply 200 ''Conversation marked as inactive''))"

definition deactivateAllConversationsByUserId :: "db \<Rightarrow> int \<Rightarrow> db \<times> nat PrismaResponse" where
  "deactivateAllConversationsByUserId d idUser' =
     (case user_findUnique d idUser' of
        None \<Rightarrow> (d, reply 404 ''User ID does not exist'')
      | Some userExists \<Rightarrow>
          (let (d', count) =
                 conversation_updateMany d (\<lambda>c. idUser c = idUser') (\<lambda>c. c\<lparr>active := False\<rparr>)
           in if count = 0 then (d', reply 404 ''No conversations found for this user'')
              else (d', \<lparr>status = 200, data = Some count,
                         message = Some (Text ''Conversations marked as inactive'')\<rparr>)))"

text \<open>
  The two deletions are separate statements: when the second one throws, the messages
  are already gone.
\<close>

definition deleteConversationById :: "db \<Rightarrow> int \<Rightarrow> db \<times> unit PrismaResponse" where
  "deleteConversationById d i =
     (if i = 0 \<or> i \<le> 0 then (d, reply 400 ''Invalid conversation ID'')
      else let (d1, deleted) = message_deleteMany d i
           in case conversation_delete d1 i of
                Inl e \<Rightarrow> (d1, thrown e)
              | Inr (d2, None) \<Rightarrow> (d2, reply 404 ''Conversation not found'')
              | Inr (d2, Some conversation) \<Rightarrow>
                  (d2, reply 200 ''Conversation and associated messages successfully deleted''))"

section \<open>The modal that edits the generation parameters\<close>

text \<open>
  The shape of the user held by \<^verbatim>\<open>PrismaUserContext\<close> is declared outside the sources;
  the component reads three optional fields of its optional \<^verbatim>\<open>globalParameters\<close>.
\<close>

record GlobalParameters =
  userContext :: "string option"
  responseContext :: "string option"
  temperature :: "real option"

record PrismaUser =
  globalParameters :: "GlobalParameters option"

text \<open>The state hooks of \<^verbatim>\<open>ModalParametersGPT\<close>.\<close>

record ModalState =
  isSelected :: bool
  updatedUserContext :: string
  updatedResponseContext :: string
  updatedTemperature :: real
  globalFormParams :: Parameters

definition initial :: "Parameters \<Rightarrow> ModalState" where
  "initial props =
     \<lparr>isSelected = False,
      updatedUserContext = Parameters.userContext props,
      updatedResponseContext = Parameters.responseContext props,
      updatedTemperature = Parameters.temperature props,
      globalFormParams = props\<rparr>"

text \<open>\<^verbatim>\<open>prismaUser?.globalParameters?.f\<close> for a field \<open>f\<close>.\<close>

definition global_field :: "PrismaUser option \<Rightarrow> (GlobalParameters \<Rightarrow> 'a option) \<Rightarrow> 'a option" where
  "global_field prismaUser f =
     (case prismaUser of
        None \<Rightarrow> None
      | Some u \<Rightarrow> (case PrismaUser.globalParameters u of None \<Rightarrow> None | Some g \<Rightarrow> f g))"

text \<open>The body of the effect; \<open>temperature'\<close> is the component's \<^verbatim>\<open>temperature\<close> prop.\<close>

definition effect :: "PrismaUser option \<Rightarrow> real \<Rightarrow> ModalState \<Rightarrow> ModalState" where
  "effect prismaUser temperature' st =
     (if isSelected st then
        (let globalUserContext =
               (case global_field prismaUser GlobalParameters.userContext of
                  None \<Rightarrow> [] | Some s \<Rightarrow> if s \<noteq> [] then s else []);
             globalResponseContext =
               (case global_field prismaUser GlobalParameters.responseContext of
                  None \<Rightarrow> [] | Some s \<Rightarrow> if s \<noteq> [] then s else []);
             globalTemperature =
               (case global_field prismaUser GlobalParameters.temperature of
                  None \<Rightarrow> temperature' | Some t \<Rightarrow> if t \<noteq> 0 then t else temperature');
             concatenatedUserContext = globalUserContext @ '' '' @ updatedUserContext st;
             concatenatedResponseContext = globalResponseContext @ '' '' @ updatedResponseContext st;
             finalTemperature = globalTemperature
         in st\<lparr>globalFormParams :=
                 \<lparr>Parameters.userContext = concatenatedUserContext,
                  Parameters.responseContext = concatenatedResponseContext,
                  Parameters.temperature = finalTemperature\<rparr>\<rparr>)
      else
        st\<lparr>globalFormParams :=
              \<lparr>Parameters.userContext = updatedUserContext st,
               Parameters.responseContext = updatedResponseContext st,
               Parameters.temperature = updatedTemperature st\<rparr>\<rparr>)"

text \<open>\<^verbatim>\<open>handleSave\<close>: the argument handed to the \<^verbatim>\<open>saveParameters\<close> callback.\<close>

definition handleSave :: "ModalState \<Rightarrow> Parameters" where
  "handleSave st = globalFormParams st"

text \<open>The event handlers of the two text areas, the slider and the switch.\<close>

datatype event =
    UserContextChange string
  | ResponseContextChange string
  | SliderChange real
  | SwitchChange bool

fun handler :: "event \<Rightarrow> ModalState \<Rightarrow> ModalState" where
  "handler (UserContextChange v) st =
     st\<lparr>globalFormParams := (globalFormParams st)\<lparr>Parameters.userContext := v\<rparr>,
        updatedUserContext := v\<rparr>"
| "handler (ResponseContextChange v) st =
     st\<lparr>globalFormParams := (globalFormParams st)\<lparr>Parameters.responseContext := v\<rparr>,
        updatedResponseContext := v\<rparr>"
| "handler (SliderChange v) st =
     st\<lparr>globalFormParams := (globalFormParams st)\<lparr>Parameters.temperature := v\<rparr>,
        updatedTemperature := v\<rparr>"
| "handler (SwitchChange b) st = st\<lparr>isSelected := b\<rparr>"

text \<open>
  The dependencies of the effect that the component's own state holds; the user's global
  parameters and the \<^verbatim>\<open>temperature\<close> prop are fixed here. After an event is handled the
  effect runs when one of them has changed.
\<close>

definition deps :: "ModalState \<Rightarrow> bool \<times> string \<times> real \<times> string" where
  "deps st = (isSelected st, updatedResponseContext st, updatedTemperature st, updatedUserContext st)"

definition dispatch :: "PrismaUser option \<Rightarrow> real \<Rightarrow> event \<Rightarrow> ModalState \<Rightarrow> ModalState" where
  "dispatch prismaUser temperature' e st =
     (let st' = handler e st
      in if deps st' \<noteq> deps st then effect prismaUser temperature' st' else st')"

text \<open>Mounting runs the effect once; \<open>locals\<close> are the values typed or edited in the form.\<close>

definition mount :: "PrismaUser option \<Rightarrow> Parameters \<Rightarrow> ModalState" where
  "mount prismaUser props = effect prismaUser (Parameters.temperature props) (initial props)"

definition locals :: "ModalState \<Rightarrow> Parameters" where
  "locals st =
     \<lparr>Parameters.userContext = updatedUserContext st,
      Parameters.responseContext = updatedResponseContext st,
      Parameters.temperature = updatedTemperature st\<rparr>"

text \<open>A sequence of events, each followed by the effect when it is due.\<close>

fun run_events :: "PrismaUser option \<Rightarrow> real \<Rightarrow> event list \<Rightarrow> ModalState \<Rightarrow> ModalState" where
  "run_events prismaUser t [] st = st"
| "run_events prismaUser t (e # es) st = run_events prismaUser t es (dispatch prismaUser t e st)"

section \<open>A small database\<close>

text \<open>
  One user whose global parameters hold a sub-object for the model \<^verbatim>\<open>gpt-4\<close>, one
  provider, one model, an active and an inactive conversation of that user, and one
  message in the first conversation.
\<close>

definition example_user :: User where
  "example_user =
     \<lparr>User_id = 1,
      User.globalParameters =
        Some (Encodes (JObj [(''gpt-4'', JObj [(''temperature'', JNum (1 / 2))])]))\<rparr>"

definition example_model :: Model where
  "example_model = \<lparr>Model_id = 2, name = ''gpt-4'', idProvider = 1\<rparr>"

definition example_conversation :: Conversation where
  "example_conversation =
     \<lparr>id_c = 1, idUser = 1, idModel = 2, title = ''Test'', tags = {3},
      parameters = TextValue (Encodes (JObj [])), active = True, useGlobalParameters = False\<rparr>"

definition example_inactive :: Conversation where
  "example_inactive =
     \<lparr>id_c = 2, idUser = 1, idModel = 2, title = ''Old'', tags = {},
      parameters = TextValue (Encodes (JObj [])), active = False, useGlobalParameters = False\<rparr>"

definition example_message :: Message where
  "example_message = \<lparr>Message_id = 1, idConversation = 1, role = ''user'', content = ''hi''\<rparr>"

definition example_db :: db where
  "example_db =
     \<lparr>users = [example_user],
      providers = [\<lparr>Provider_id = 1, image = ''logo.png''\<rparr>],
      models = [example_model],
      conversations = [example_conversation, example_inactive],
      messages = [example_message],
      conversation_seq = 2\<rparr>"

text \<open>An input for \<^verbatim>\<open>createConversation\<close>, two users of the modal and its props.\<close>

definition example_input :: ConversationDataInput where
  "example_input =
     \<lparr>ConversationDataInput.idUser = 1, ConversationDataInput.idModel = 2,
      ConversationDataInput.title = ''Test'', ConversationDataInput.tags = Some [3],
      ConversationDataInput.parameters = JNull, ConversationDataInput.active = False,
      ConversationDataInput.useGlobalParameters = True\<rparr>"




section \<open>Auxiliary facts\<close>

lemmas example_defs =
  example_db_def example_user_def example_model_def example_conversation_def
  example_inactive_def example_message_def example_input_def

lemma find_map_update:
  assumes "\<And>x. id_c (f x) = id_c x"
  shows "find (\<lambda>c. id_c c = i) (map (\<lambda>x. if id_c x = i then f x else x) xs)
         = map_option f (find (\<lambda>c. id_c c = i) xs)"
  using assms by (induction xs) auto


lemma dropWhile_all: "(\<forall>c\<in>set (dropWhile P t). P c) \<longleftrightarrow> (\<forall>c\<in>set t. P c)"
  by (induction t) auto

lemma trim_empty_iff: "trim t = [] \<longleftrightarrow> (\<forall>c\<in>set t. js_whitespace c)"
  by (simp add: trim_def dropWhile_eq_Nil_conv dropWhile_all)

lemma getAll_items:
  assumes "data (getAllConversationsByUserId d u) = Some items" and "x \<in> set items"
  shows "item x \<in> set (conversations d) \<and> active (item x) \<and> idUser (item x) = u"
  using assms
  by (auto simp: getAllConversationsByUserId_def reply_def success_def Let_def
        conversation_findMany_def list_item_def split: option.splits if_splits)


lemma deactivated_not_active:
  assumes "y \<in> set (map (\<lambda>x. if id_c x = i then x\<lparr>active := False\<rparr> else x) xs)" and "active y"
  shows "id_c y \<noteq> i"
proof -
  from assms(1) obtain x where x: "x \<in> set xs" and y: "y = (if id_c x = i then x\<lparr>active := False\<rparr> else x)"
    by (auto simp only: set_map image_iff)
  show ?thesis
  proof (cases "id_c x = i")
    case True
    with y have "\<not> active y" by simp
    with assms(2) show ?thesis by simp
  next
    case False
    with y show ?thesis by simp
  qed
qed


lemma conversation_update_Some:
  "conversation_findUnique d i = Some c \<Longrightarrow>
   conversation_update d i f =
     Inr (d\<lparr>conversations := map (\<lambda>x. if id_c x = i then f x else x) (conversations d)\<rparr>, Some (f c))"
  by (simp add: conversation_update_def)

lemma conversation_findUnique_id: "conversation_findUnique d i = Some c \<Longrightarrow> id_c c = i"
  by (auto simp: conversation_findUnique_def find_Some_iff)


lemma conversation_updateMany_eq:
  "conversation_updateMany d P f =
     (d\<lparr>conversations := map (\<lambda>x. if P x then f x else x) (conversations d)\<rparr>,
      length (filter P (conversations d)))"
  by (simp add: conversation_updateMany_def)

lemma createConversation_run:
  assumes "ConversationDataInput.idUser inp \<noteq> 0" and "ConversationDataInput.idModel inp \<noteq> 0"
    and "ConversationDataInput.title inp \<noteq> []"
    and "user_findUnique d (ConversationDataInput.idUser inp) = Some u"
    and "model_findUnique d (ConversationDataInput.idModel inp) = Some m"
    and "userGlobalParameters u = Inr g" and "get_property g (name m) = Inr mp"
  defines "c \<equiv> \<lparr>id_c = conversation_seq d + 1,
                 idUser = ConversationDataInput.idUser inp,
                 idModel = ConversationDataInput.idModel inp,
                 title = ConversationDataInput.title inp,
                 tags = (case ConversationDataInput.tags inp of None \<Rightarrow> {} | Some ts \<Rightarrow> set ts),
                 parameters = TextValue (stored_parameters
                   (if ConversationDataInput.useGlobalParameters inp then mp else None)),
                 active = True,
                 useGlobalParameters = ConversationDataInput.useGlobalParameters inp\<rparr>"
  defines "d' \<equiv> d\<lparr>conversations := conversations d @ [c],
                   conversation_seq := conversation_seq d + 1\<rparr>"
  shows "createConversation d (Some inp) = (d', success 201 (include_all d' c))"
  using assms(1-7)
  by (simp add: createConversation_def conversation_create_def Let_def c_def d'_def)

lemma createConversation_201:
  assumes "status (snd (createConversation d input)) = 201"
  shows "\<exists>inp u m g mp. input = Some inp
    \<and> ConversationDataInput.idUser inp \<noteq> 0 \<and> ConversationDataInput.idModel inp \<noteq> 0
    \<and> ConversationDataInput.title inp \<noteq> []
    \<and> user_findUnique d (ConversationDataInput.idUser inp) = Some u
    \<and> model_findUnique d (ConversationDataInput.idModel inp) = Some m
    \<and> userGlobalParameters u = Inr g \<and> get_property g (name m) = Inr mp"
  using assms
  by (auto simp: createConversation_def reply_def thrown_def split: option.splits if_splits sum.splits)


lemma createConversation_unparsable:
  assumes "ConversationDataInput.idUser inp \<noteq> 0" and "ConversationDataInput.idModel inp \<noteq> 0"
    and "ConversationDataInput.title inp \<noteq> []"
    and "user_findUnique d (ConversationDataInput.idUser inp) = Some u"
    and "model_findUnique d (ConversationDataInput.idModel inp) = Some m"
    and "User.globalParameters u = Some Malformed"
  shows "createConversation d (Some inp) = (d, thrown SyntaxError)"
  using assms by (simp add: createConversation_def userGlobalParameters_def)

lemma conversation_update_None:
  "conversation_findUnique d i = None \<Longrightarrow> conversation_update d i f = Inl RecordNotFound"
  by (simp add: conversation_update_def)

lemma conversation_delete_None:
  "conversation_findUnique d i = None \<Longrightarrow> conversation_delete d i = Inl RecordNotFound"
  by (simp add: conversation_delete_def)

lemma missing_row_rejected:
  assumes "0 < i" and "conversation_findUnique d i = None"
  shows "snd (updateConversationById d i info inc) = reply 400 ''Title cannot be empty''
           \<or> updateConversationById d i info inc = (d, thrown RecordNotFound)"
    and "deactivateConversationById d i = (d, thrown RecordNotFound)"
    and "deleteConversationById d i = (fst (message_deleteMany d i), thrown RecordNotFound)"
proof -
  show "snd (updateConversationById d i info inc) = reply 400 ''Title cannot be empty''
           \<or> updateConversationById d i info inc = (d, thrown RecordNotFound)"
    using assms by (simp add: updateConversationById_def conversation_update_None)
  show "deactivateConversationById d i = (d, thrown RecordNotFound)"
    using assms by (simp add: deactivateConversationById_def conversation_update_None)
  have "conversation_findUnique (fst (message_deleteMany d i)) i = None"
    using assms(2) by (simp add: message_deleteMany_def conversation_findUnique_def)
  then show "deleteConversationById d i = (fst (message_deleteMany d i), thrown RecordNotFound)"
    using assms(1)
    by (simp add: deleteConversationById_def case_prod_beta conversation_delete_None)
qed

lemma updateConversationParameters_no_id_check:
  assumes "areValidModelParameters p"
  shows "status (snd (updateConversationParameters areValidModelParameters d i p)) \<noteq> 400"
  using assms
  by (auto simp: updateConversationParameters_def thrown_def split: sum.splits)

lemma dispatch_switch:
  "b \<noteq> isSelected st \<Longrightarrow>
   dispatch prismaUser t (SwitchChange b) st = effect prismaUser t (st\<lparr>isSelected := b\<rparr>)"
  by (auto simp: dispatch_def deps_def)

lemma effect_fields:
  "isSelected (effect prismaUser t st) = isSelected st"
  "updatedUserContext (effect prismaUser t st) = updatedUserContext st"
  "updatedResponseContext (effect prismaUser t st) = updatedResponseContext st"
  "updatedTemperature (effect prismaUser t st) = updatedTemperature st"
  by (simp_all add: effect_def Let_def)

lemma effect_off: "\<not> isSelected st \<Longrightarrow> globalFormParams (effect prismaUser t st) = locals st"
  by (simp add: effect_def locals_def)

lemma dispatch_keeps_off_invariant:
  assumes "\<not> isSelected st \<longrightarrow> globalFormParams st = locals st"
  shows "\<not> isSelected (dispatch prismaUser t e st) \<longrightarrow>
         globalFormParams (dispatch prismaUser t e st) = locals (dispatch prismaUser t e st)"
proof (cases "deps (handler e st) \<noteq> deps st")
  case True
  then have "dispatch prismaUser t e st = effect prismaUser t (handler e st)"
    by (simp add: dispatch_def)
  then show ?thesis
    by (simp add: effect_fields effect_off locals_def)
next
  case False
  then have d: "dispatch prismaUser t e st = handler e st"
    by (simp add: dispatch_def)
  show ?thesis
    using assms False unfolding d
    by (cases e) (auto simp: deps_def locals_def)
qed

lemma run_events_keep_off_invariant:
  "(\<not> isSelected st \<longrightarrow> globalFormParams st = locals st) \<Longrightarrow>
   \<not> isSelected (run_events prismaUser t es st) \<longrightarrow>
   globalFormParams (run_events prismaUser t es st) = locals (run_events prismaUser t es st)"
proof (induction es arbitrary: st)
  case Nil
  then show ?case by simp
next
  case (Cons e es)
  from Cons.IH [OF dispatch_keeps_off_invariant [OF Cons.prems]]
  show ?case by simp
qed

lemma toggle_off_saves_locals:
  assumes "st = run_events prismaUser (Parameters.temperature props) es (mount prismaUser props)"
    and "\<not> isSelected st"
  shows "handleSave st = locals st"
proof -
  have "\<not> isSelected (mount prismaUser props) \<longrightarrow>
        globalFormParams (mount prismaUser props) = locals (mount prismaUser props)"
    by (simp add: mount_def effect_off effect_fields locals_def)
  from run_events_keep_off_invariant [OF this] assms show ?thesis
    by (simp add: handleSave_def)
qed

text \<open>
  With the toggle on, an edit that enters the value the local state already holds changes
  the form parameters but none of the effect's dependencies, so the effect does not run.
\<close>

lemma same_value_edit_skips_effect:
  "handleSave (dispatch None t (UserContextChange ''abc'')
      (dispatch None t (SwitchChange True) (mount None
         \<lparr>Parameters.userContext = ''abc'', Parameters.responseContext = [],
          Parameters.temperature = t\<rparr>)))
   = \<lparr>Parameters.userContext = ''abc'', Parameters.responseContext = '' '',
      Parameters.temperature = t\<rparr>"
  by (simp add: dispatch_def deps_def mount_def initial_def effect_def handleSave_def
        global_field_def Let_def)

section \<open>Creating a conversation\<close>



text \<open>
  C8: whenever \<^verbatim>\<open>createConversation\<close> answers 201, the row it has appended and returns
  has \<open>active\<close> true, whatever \<open>active\<close> value the input carries.
\<close>

theorem createConversation_forces_active:
  assumes "status (snd (createConversation d input)) = 201"
  shows "\<exists>res. data (snd (createConversation d input)) = Some res
    \<and> active (row res)
    \<and> conversations (fst (createConversation d input)) = conversations d @ [row res]"
proof -
  from createConversation_201 [OF assms] obtain inp u m g mp where
    i: "input = Some inp"
    and v: "ConversationDataInput.idUser inp \<noteq> 0" "ConversationDataInput.idModel inp \<noteq> 0"
       "ConversationDataInput.title inp \<noteq> []"
    and f: "user_findUnique d (ConversationDataInput.idUser inp) = Some u"
       "model_findUnique d (ConversationDataInput.idModel inp) = Some m"
    and p: "userGlobalParameters u = Inr g" "get_property g (name m) = Inr mp"
    by blast
  note run = createConversation_run [OF v f p]
  show ?thesis
    unfolding i run by (simp add: success_def include_all_def)
qed

text \<open>
  A successful call whose input says \<open>active = False\<close>.
\<close>

theorem createConversation_forces_active_witness:
  "ConversationDataInput.active example_input = False
   \<and> status (snd (createConversation example_db (Some example_input))) = 201
   \<and> (\<exists>res. data (snd (createConversation example_db (Some example_input))) = Some res
         \<and> active (row res)
         \<and> conversations (fst (createConversation example_db (Some example_input)))
             = conversations example_db @ [row res])"
proof -
  have s: "status (snd (createConversation example_db (Some example_input))) = 201"
    by (simp add: createConversation_def user_findUnique_def model_findUnique_def
          userGlobalParameters_def conversation_create_def success_def Let_def example_defs)
  have a: "ConversationDataInput.active example_input = False"
    by (simp add: example_input_def)
  from createConversation_forces_active [OF s] s a show ?thesis by blast
qed

section \<open>Rows that do not exist, ids that are not valid\<close>

text \<open>
  C2: for the valid id 7, which no conversation row of the example database has,
  \<^verbatim>\<open>updateConversationById\<close>, \<^verbatim>\<open>deactivateConversationById\<close> and
  \<^verbatim>\<open>deleteConversationById\<close> leave the database unchanged but answer with the caught
  record-not-found error, status 500; the 404 branch after the client call is never taken.
\<close>

theorem missing_conversation_answers_500:
  "conversation_findUnique example_db 7 = None
   \<and> updateConversationById example_db 7
        \<lparr>UpdatedInfo.tags = None, UpdatedInfo.title = Some ''Renamed''\<rparr> False
       = (example_db, thrown RecordNotFound)
   \<and> deactivateConversationById example_db 7 = (example_db, thrown RecordNotFound)
   \<and> deleteConversationById example_db 7 = (example_db, thrown RecordNotFound)
   \<and> status (thrown RecordNotFound :: unit PrismaResponse) = 500"
proof -
  have n: "conversation_findUnique example_db 7 = None"
    by (simp add: conversation_findUnique_def example_defs)
  have tr: "trim ''Renamed'' = ''Renamed''"
    by (simp add: trim_def js_whitespace_def)
  have u: "updateConversationById example_db 7
        \<lparr>UpdatedInfo.tags = None, UpdatedInfo.title = Some ''Renamed''\<rparr> False
       = (example_db, thrown RecordNotFound)"
    by (simp add: updateConversationById_def conversation_update_None [OF n] tr)
  have a: "deactivateConversationById example_db 7 = (example_db, thrown RecordNotFound)"
    by (simp add: deactivateConversationById_def conversation_update_None [OF n])
  have m: "message_deleteMany example_db 7 = (example_db, 0)"
    by (simp add: message_deleteMany_def example_defs)
  have e: "deleteConversationById example_db 7 = (example_db, thrown RecordNotFound)"
    by (simp add: deleteConversationById_def m conversation_delete_None [OF n])
  have s: "status (thrown RecordNotFound :: unit PrismaResponse) = 500"
    by (simp add: thrown_def)
  from n u a e s show ?thesis by blast
qed

text \<open>
  C3, as stated, fails: \<^verbatim>\<open>deactivateAllConversationsByUserId\<close> does not validate its
  argument and answers 404 for the ids 0 and -1.
\<close>

theorem deactivateAll_invalid_id_counterexample:
  "status (snd (deactivateAllConversationsByUserId example_db 0)) = 404
   \<and> status (snd (deactivateAllConversationsByUserId example_db (- 1))) = 404
   \<and> status (snd (deactivateAllConversationsByUserId example_db 0)) \<noteq> 400"
  by (simp add: deactivateAllConversationsByUserId_def user_findUnique_def reply_def example_defs)

text \<open>
  C3, amended: for an id that is zero or negative, \<^verbatim>\<open>getAllConversationsByUserId\<close>,
  \<^verbatim>\<open>getConversationById\<close>, \<^verbatim>\<open>updateConversationById\<close>,
  \<^verbatim>\<open>deactivateConversationById\<close> and \<^verbatim>\<open>deleteConversationById\<close> answer 400 and leave
  the database unchanged; \<^verbatim>\<open>deactivateAllConversationsByUserId\<close> answers 404 when no
  user has that id.
\<close>

theorem invalid_id_answers:
  assumes "i \<le> 0"
  shows "getAllConversationsByUserId d i = reply 400 ''Invalid user ID''
    \<and> getConversationById d i = reply 400 ''Invalid conversation ID''
    \<and> updateConversationById d i info inc = (d, reply 400 ''Invalid conversation ID'')
    \<and> deactivateConversationById d i = (d, reply 400 ''Invalid conversation ID'')
    \<and> deleteConversationById d i = (d, reply 400 ''Invalid conversation ID'')
    \<and> (user_findUnique d i = None \<longrightarrow>
         deactivateAllConversationsByUserId d i = (d, reply 404 ''User ID does not exist''))"
  using assms
  by (auto simp: getAllConversationsByUserId_def getConversationById_def
        updateConversationById_def deactivateConversationById_def deleteConversationById_def
        deactivateAllConversationsByUserId_def)

text \<open>
  The id -1 on the example database.
\<close>

theorem invalid_id_answers_witness:
  "(- 1 :: int) \<le> 0 \<and> user_findUnique example_db (- 1) = None
   \<and> status (getAllConversationsByUserId example_db (- 1)) = 400
   \<and> status (getConversationById example_db (- 1)) = 400
   \<and> deactivateConversationById example_db (- 1) = (example_db, reply 400 ''Invalid conversation ID'')
   \<and> deleteConversationById example_db (- 1) = (example_db, reply 400 ''Invalid conversation ID'')
   \<and> deactivateAllConversationsByUserId example_db (- 1)
        = (example_db, reply 404 ''User ID does not exist'')"
proof -
  have h: "(- 1 :: int) \<le> 0" by simp
  have n: "user_findUnique example_db (- 1) = None"
    by (simp add: user_findUnique_def example_defs)
  from invalid_id_answers [OF h, of example_db] h n show ?thesis
    by (simp add: reply_def)
qed

section \<open>Deactivating and deleting\<close>

text \<open>
  C4: for an existing conversation \<open>c\<close> with a valid id, \<^verbatim>\<open>deactivateConversationById\<close>
  answers 200 and changes nothing but the \<open>active\<close> field of the rows with that id: the
  row found afterwards is \<open>c\<close> with \<open>active\<close> false (same title, parameters and tags), the
  messages are untouched, \<^verbatim>\<open>getConversationById\<close> still returns the row, and no list
  returned by \<^verbatim>\<open>getAllConversationsByUserId\<close> contains it.
\<close>

theorem deactivateConversationById_only_active:
  assumes "0 < i" and "conversation_findUnique d i = Some c"
  defines "d' \<equiv> fst (deactivateConversationById d i)"
  shows "snd (deactivateConversationById d i) = reply 200 ''Conversation marked as inactive''
    \<and> d' = d\<lparr>conversations :=
                map (\<lambda>x. if id_c x = i then x\<lparr>active := False\<rparr> else x) (conversations d)\<rparr>
    \<and> conversation_findUnique d' i = Some (c\<lparr>active := False\<rparr>)
    \<and> message_findMany d' i = message_findMany d i
    \<and> getConversationById d' i = success 200 (include_all d' (c\<lparr>active := False\<rparr>))
    \<and> (\<forall>u items. data (getAllConversationsByUserId d' u) = Some items \<longrightarrow>
          i \<notin> set (map (\<lambda>x. id_c (item x)) items))"
proof -
  have run: "deactivateConversationById d i =
      (d\<lparr>conversations :=
            map (\<lambda>x. if id_c x = i then x\<lparr>active := False\<rparr> else x) (conversations d)\<rparr>,
       reply 200 ''Conversation marked as inactive'')"
    using assms(1) conversation_update_Some [OF assms(2)]
    by (simp add: deactivateConversationById_def)
  then have d': "d' = d\<lparr>conversations :=
            map (\<lambda>x. if id_c x = i then x\<lparr>active := False\<rparr> else x) (conversations d)\<rparr>"
    by (simp add: d'_def)
  have cs: "conversations d' =
      map (\<lambda>x. if id_c x = i then x\<lparr>active := False\<rparr> else x) (conversations d)"
    by (simp add: d')
  have fu: "conversation_findUnique d' i = Some (c\<lparr>active := False\<rparr>)"
    using assms(2) by (simp add: conversation_findUnique_def cs find_map_update)
  have msgs: "message_findMany d' i = message_findMany d i"
    by (simp add: message_findMany_def d')
  have get: "getConversationById d' i = success 200 (include_all d' (c\<lparr>active := False\<rparr>))"
    using assms(1) fu by (simp add: getConversationById_def)
  have lst: "i \<notin> set (map (\<lambda>x. id_c (item x)) items)"
    if items: "data (getAllConversationsByUserId d' u) = Some items" for u items
  proof
    assume "i \<in> set (map (\<lambda>x. id_c (item x)) items)"
    then obtain x where x: "x \<in> set items" and xi: "id_c (item x) = i"
      by (auto simp only: set_map image_iff)
    from getAll_items [OF items x]
    have "item x \<in> set (conversations d')" and "active (item x)"
      by blast+
    with deactivated_not_active [of "item x" i "conversations d"] cs xi
    show False by simp
  qed
  from run have "snd (deactivateConversationById d i) = reply 200 ''Conversation marked as inactive''"
    by simp
  with d' fu msgs get lst show ?thesis by blast
qed

text \<open>
  Deactivating conversation 1 of the example database.
\<close>

theorem deactivateConversationById_only_active_witness:
  "(0::int) < 1 \<and> conversation_findUnique example_db 1 = Some example_conversation
   \<and> snd (deactivateConversationById example_db 1) = reply 200 ''Conversation marked as inactive''
   \<and> conversation_findUnique (fst (deactivateConversationById example_db 1)) 1
       = Some (example_conversation\<lparr>active := False\<rparr>)
   \<and> message_findMany (fst (deactivateConversationById example_db 1)) 1 = [example_message]
   \<and> status (getConversationById (fst (deactivateConversationById example_db 1)) 1) = 200
   \<and> status (getAllConversationsByUserId (fst (deactivateConversationById example_db 1)) 1) = 404"
proof -
  have h1: "(0::int) < 1" by simp
  have h2: "conversation_findUnique example_db 1 = Some example_conversation"
    by (simp add: conversation_findUnique_def example_defs)
  have m: "message_findMany example_db 1 = [example_message]"
    by (simp add: message_findMany_def example_defs)
  note t = deactivateConversationById_only_active [OF h1 h2]
  from t have "getConversationById (fst (deactivateConversationById example_db 1)) 1 =
      success 200 (include_all (fst (deactivateConversationById example_db 1))
        (example_conversation\<lparr>active := False\<rparr>))"
    by blast
  then have g: "status (getConversationById (fst (deactivateConversationById example_db 1)) 1) = 200"
    by (simp add: success_def)
  from t have "fst (deactivateConversationById example_db 1) =
      example_db\<lparr>conversations :=
        map (\<lambda>x. if id_c x = 1 then x\<lparr>active := False\<rparr> else x) (conversations example_db)\<rparr>"
    by blast
  then have d: "fst (deactivateConversationById example_db 1) =
      example_db\<lparr>conversations := [example_conversation\<lparr>active := False\<rparr>, example_inactive]\<rparr>"
    by (simp add: example_defs)
  have l: "status (getAllConversationsByUserId (fst (deactivateConversationById example_db 1)) 1) = 404"
    unfolding d
    by (simp add: getAllConversationsByUserId_def user_findUnique_def conversation_findMany_def
          reply_def example_defs)
  from t have s: "snd (deactivateConversationById example_db 1) =
      reply 200 ''Conversation marked as inactive''"
    and f: "conversation_findUnique (fst (deactivateConversationById example_db 1)) 1
       = Some (example_conversation\<lparr>active := False\<rparr>)"
    and k: "message_findMany (fst (deactivateConversationById example_db 1)) 1 =
       message_findMany example_db 1"
    by blast+
  show ?thesis using h1 h2 s f k m g l by simp
qed



text \<open>
  C10: for an existing user, \<^verbatim>\<open>deactivateAllConversationsByUserId\<close> sets \<open>active\<close> to
  false on every conversation of the user, whatever its current value; the count it
  returns is the number \<open>n\<close> of all conversations of the user, and it answers 404 exactly
  when \<open>n\<close> is zero.
\<close>

theorem deactivateAllConversationsByUserId_count:
  assumes "user_findUnique d u = Some usr"
  defines "n \<equiv> length (filter (\<lambda>c. idUser c = u) (conversations d))"
  defines "r \<equiv> snd (deactivateAllConversationsByUserId d u)"
  shows "fst (deactivateAllConversationsByUserId d u) =
           d\<lparr>conversations :=
               map (\<lambda>c. if idUser c = u then c\<lparr>active := False\<rparr> else c) (conversations d)\<rparr>
    \<and> (n = 0 \<longrightarrow> r = reply 404 ''No conversations found for this user'')
    \<and> (0 < n \<longrightarrow> r = \<lparr>status = 200, data = Some n,
                         message = Some (Text ''Conversations marked as inactive'')\<rparr>)
    \<and> (status r = 404 \<longleftrightarrow> n = 0)"
  using assms(1)
  by (simp add: deactivateAllConversationsByUserId_def conversation_updateMany_eq
        r_def n_def reply_def)

text \<open>
  The example user owns an active and an inactive conversation: the count is 2; with
  no conversation at all the answer is 404.
\<close>

theorem deactivateAllConversationsByUserId_count_witness:
  "user_findUnique example_db 1 = Some example_user
   \<and> snd (deactivateAllConversationsByUserId example_db 1) =
       \<lparr>status = 200, data = Some 2, message = Some (Text ''Conversations marked as inactive'')\<rparr>
   \<and> conversations (fst (deactivateAllConversationsByUserId example_db 1)) =
       [example_conversation\<lparr>active := False\<rparr>, example_inactive]
   \<and> snd (deactivateAllConversationsByUserId (example_db\<lparr>conversations := []\<rparr>) 1) =
       reply 404 ''No conversations found for this user''"
proof -
  have h: "user_findUnique example_db 1 = Some example_user"
    by (simp add: user_findUnique_def example_defs)
  have h': "user_findUnique (example_db\<lparr>conversations := []\<rparr>) 1 = Some example_user"
    by (simp add: user_findUnique_def example_defs)
  have n: "length (filter (\<lambda>c. idUser c = 1) (conversations example_db)) = 2"
    by (simp add: example_defs)
  have a: "snd (deactivateAllConversationsByUserId example_db 1) =
       \<lparr>status = 200, data = Some 2, message = Some (Text ''Conversations marked as inactive'')\<rparr>"
    using deactivateAllConversationsByUserId_count [OF h] by (simp add: n)
  have b: "conversations (fst (deactivateAllConversationsByUserId example_db 1)) =
       [example_conversation\<lparr>active := False\<rparr>, example_inactive]"
    using deactivateAllConversationsByUserId_count [OF h] by (simp add: example_defs)
  have c: "snd (deactivateAllConversationsByUserId (example_db\<lparr>conversations := []\<rparr>) 1) =
       reply 404 ''No conversations found for this user''"
    using deactivateAllConversationsByUserId_count [OF h'] by simp
  show ?thesis using h a b c by simp
qed

section \<open>Updating a conversation\<close>



text \<open>
  C7: when \<open>updatedInfo.title\<close> is a non-empty string of whitespace only,
  \<^verbatim>\<open>updateConversationById\<close> answers 400 and returns the database unchanged.
\<close>

theorem updateConversationById_blank_title:
  assumes "UpdatedInfo.title info = Some t" and "t \<noteq> []" and "\<forall>c\<in>set t. js_whitespace c"
  shows "fst (updateConversationById d i info inc) = d
    \<and> status (snd (updateConversationById d i info inc)) = 400
    \<and> (0 < i \<longrightarrow> snd (updateConversationById d i info inc) = reply 400 ''Title cannot be empty'')"
proof -
  have "trim t = []" using assms(3) by (simp add: trim_empty_iff)
  then show ?thesis
    using assms(1,2) by (simp add: updateConversationById_def reply_def)
qed

text \<open>
  The title of two spaces.
\<close>

theorem updateConversationById_blank_title_witness:
  "js_whitespace CHR '' ''
   \<and> updateConversationById example_db 1
         \<lparr>UpdatedInfo.tags = Some [], UpdatedInfo.title = Some ''  ''\<rparr> True
       = (example_db, reply 400 ''Title cannot be empty'')"
proof -
  have w: "js_whitespace CHR '' ''" by (simp add: js_whitespace_def)
  have h: "\<forall>c\<in>set ''  ''. js_whitespace c" using w by simp
  have t: "UpdatedInfo.title \<lparr>UpdatedInfo.tags = Some [], UpdatedInfo.title = Some ''  ''\<rparr>
           = Some ''  ''" by simp
  have n: "''  '' \<noteq> []" by simp
  from updateConversationById_blank_title [OF t n h, of example_db 1 True]
  show ?thesis using w by (simp add: prod_eq_iff)
qed

section \<open>The parameters saved by the modal\<close>




end
